theory Spec2Isabelle
  imports Complex_Main
begin

section \<open>JavaScript values used by the scanner and the score helpers\<close>

text \<open>
  A JavaScript number that takes part in a comparison is modelled as \<open>real option\<close>:
  \<open>Some v\<close> is the finite number \<open>v\<close>, \<open>None\<close> is what a missing property
  (\<open>undefined\<close>) or \<open>NaN\<close> turns into, for which every comparison is false.
  The thresholds of the source (20, 5, 15, 1.5, 600, 3, 10, 80, 60, 40) are exact in
  binary floating point, so comparing the real value is what the source computes.
\<close>

type_synonym jsnum = "real option"

definition js_gt :: "jsnum \<Rightarrow> real \<Rightarrow> bool" where
  "js_gt x t = (case x of None \<Rightarrow> False | Some v \<Rightarrow> v > t)"

definition js_ge :: "jsnum \<Rightarrow> real \<Rightarrow> bool" where
  "js_ge x t = (case x of None \<Rightarrow> False | Some v \<Rightarrow> v \<ge> t)"

text \<open>
  The checksum arithmetic works on what \<open>Number.parseInt\<close> returns for one character:
  an integer, or \<open>NaN\<close> (\<open>None\<close>). \<open>NaN\<close> is contagious in \<open>+\<close>, \<open>-\<close>, \<open>*\<close>
  and \<open>%\<close>, and \<open>===\<close> is false as soon as one side is \<open>NaN\<close>. The remainder
  \<open>%\<close> takes the sign of the dividend.
\<close>

type_synonym jsint = "int option"

definition js_add :: "jsint \<Rightarrow> jsint \<Rightarrow> jsint" where
  "js_add a b = (case (a, b) of (Some x, Some y) \<Rightarrow> Some (x + y) | _ \<Rightarrow> None)"

definition js_sub :: "jsint \<Rightarrow> jsint \<Rightarrow> jsint" where
  "js_sub a b = (case (a, b) of (Some x, Some y) \<Rightarrow> Some (x - y) | _ \<Rightarrow> None)"

definition js_mul :: "jsint \<Rightarrow> jsint \<Rightarrow> jsint" where
  "js_mul a b = (case (a, b) of (Some x, Some y) \<Rightarrow> Some (x * y) | _ \<Rightarrow> None)"

definition js_rem :: "jsint \<Rightarrow> jsint \<Rightarrow> jsint" where
  "js_rem a b =
     (case (a, b) of
        (Some x, Some y) \<Rightarrow> if y = 0 then None else Some (sgn x * (\<bar>x\<bar> mod \<bar>y\<bar>))
      | _ \<Rightarrow> None)"

definition js_strict_eq :: "jsint \<Rightarrow> jsint \<Rightarrow> bool" where
  "js_strict_eq a b = (case (a, b) of (Some x, Some y) \<Rightarrow> x = y | _ \<Rightarrow> False)"


section \<open>Health score (\<open>getHealthScore\<close>, product page)\<close>

text \<open>
  The \<open>nutriments\<close> object of a product: per-100g quantities, each of them optional.
  \<open>getHealthScore\<close> reads seven of the properties; the page displays the energy and the
  carbohydrates as well.
\<close>

record NutrientFacts =
  energy_kcal_100g :: jsnum
  fat_100g :: jsnum
  saturated_fat_100g :: jsnum
  carbohydrates_100g :: jsnum
  sugars_100g :: jsnum
  fiber_100g :: jsnum
  proteins_100g :: jsnum
  salt_100g :: jsnum
  sodium_100g :: jsnum

text \<open>
  \<^verbatim>\<open>
  function getHealthScore(nutriments: any): number {
    let score = 100
    if (nutriments.fat_100g > 20) score -= 15
    if (nutriments.saturated_fat_100g > 5) score -= 10
    if (nutriments.sugars_100g > 15) score -= 20
    if (nutriments.salt_100g > 1.5) score -= 15
    if (nutriments.sodium_100g > 600) score -= 10
    if (nutriments.fiber_100g > 3) score += 10
    if (nutriments.proteins_100g > 10) score += 5
    return Math.max(0, Math.min(100, score))
  }
  \<close>
  The variable \<open>score\<close> is threaded through the seven statements in the source's order.
\<close>

definition getHealthScore :: "NutrientFacts \<Rightarrow> int" where
  "getHealthScore nutriments =
     (let score = 100;
          score = (if js_gt (fat_100g nutriments) 20 then score - 15 else score);
          score = (if js_gt (saturated_fat_100g nutriments) 5 then score - 10 else score);
          score = (if js_gt (sugars_100g nutriments) 15 then score - 20 else score);
          score = (if js_gt (salt_100g nutriments) 1.5 then score - 15 else score);
          score = (if js_gt (sodium_100g nutriments) 600 then score - 10 else score);
          score = (if js_gt (fiber_100g nutriments) 3 then score + 10 else score);
          score = (if js_gt (proteins_100g nutriments) 10 then score + 5 else score)
      in max 0 (min 100 score))"

text \<open>The record \<open>{}\<close>: every property missing.\<close>

definition no_facts :: NutrientFacts where
  "no_facts =
     \<lparr>energy_kcal_100g = None, fat_100g = None, saturated_fat_100g = None,
      carbohydrates_100g = None, sugars_100g = None, fiber_100g = None,
      proteins_100g = None, salt_100g = None, sodium_100g = None\<rparr>"


section \<open>Score bands and grade colours\<close>

text \<open>
  \<^verbatim>\<open>
  function getHealthScoreClass(score) {
    if (score >= 80) return "health-score-excellent"
    if (score >= 60) return "health-score-good"
    if (score >= 40) return "health-score-fair"
    return "health-score-poor"
  }
  function getHealthScoreText(score) {
    if (score >= 80) return "Excellent"
    if (score >= 60) return "Good"
    if (score >= 40) return "Fair"
    return "Poor"
  }
  \<close>
  The class tokens name the band; the style sheet that gives each band its colour is not
  part of the scripts.
\<close>

definition getHealthScoreClass :: "jsnum \<Rightarrow> string" where
  "getHealthScoreClass score =
     (if js_ge score 80 then ''health-score-excellent''
      else if js_ge score 60 then ''health-score-good''
      else if js_ge score 40 then ''health-score-fair''
      else ''health-score-poor'')"

definition getHealthScoreText :: "jsnum \<Rightarrow> string" where
  "getHealthScoreText score =
     (if js_ge score 80 then ''Excellent''
      else if js_ge score 60 then ''Good''
      else if js_ge score 40 then ''Fair''
      else ''Poor'')"

text \<open>
  \<open>getGradeColor\<close> is a \<open>switch\<close> over the grade string with a \<open>default\<close> branch;
  the cases compare with \<open>===\<close>, which on strings is equality of the characters.
\<close>

definition getGradeColor :: "string \<Rightarrow> string" where
  "getGradeColor grade =
     (if grade = ''A'' then ''bg-green-500''
      else if grade = ''B'' then ''bg-lime-500''
      else if grade = ''C'' then ''bg-yellow-500''
      else if grade = ''D'' then ''bg-orange-500''
      else if grade = ''E'' then ''bg-red-500''
      else ''bg-gray-500'')"


section \<open>Barcode validation (\<open>validateBarcode\<close>, scanner script)\<close>

text \<open>
  A string is a list of characters. The regular expressions of the source only ask
  whether a character is one of the ten ASCII digits, the codes 48 to 57; every other
  character, whatever its code, is treated alike.

  \<^item> \<open>stripNonDigits\<close> is \<open>barcode.replace\<close> with the global non-digit pattern and the
    empty replacement: it keeps the digits, in order.
  \<^item> \<open>testAllDigits\<close> is the anchored test for one or more digits.
  \<^item> \<open>charAt\<close> is indexing \<open>barcode[i]\<close>, which yields \<open>undefined\<close> (\<open>None\<close>) out of
    range.
  \<^item> \<open>parseInt\<close> is \<open>Number.parseInt\<close> on such a value: the digit's value for a digit
    character, \<open>NaN\<close> for any other single character and for \<open>undefined\<close>.
\<close>

definition isDigit :: "char \<Rightarrow> bool" where
  "isDigit c \<longleftrightarrow> 48 \<le> (of_char c :: nat) \<and> (of_char c :: nat) \<le> 57"

definition stripNonDigits :: "string \<Rightarrow> string" where
  "stripNonDigits barcode = filter isDigit barcode"

definition testAllDigits :: "string \<Rightarrow> bool" where
  "testAllDigits s \<longleftrightarrow> s \<noteq> [] \<and> list_all isDigit s"

definition charAt :: "string \<Rightarrow> nat \<Rightarrow> char option" where
  "charAt s i = (if i < length s then Some (s ! i) else None)"

definition parseInt :: "char option \<Rightarrow> jsint" where
  "parseInt x =
     (case x of
        None \<Rightarrow> None
      | Some c \<Rightarrow> if isDigit c then Some (int (of_char c) - 48) else None)"

text \<open>
  \<^verbatim>\<open>
  function validateEAN13(barcode) {
    if (barcode.length !== 13) return false
    let sum = 0
    for (let i = 0; i < 12; i++) {
      const digit = Number.parseInt(barcode[i])
      sum += i % 2 === 0 ? digit : digit * 3
    }
    const checkDigit = (10 - (sum % 10)) % 10
    return checkDigit === Number.parseInt(barcode[12])
  }
  \<close>
  The \<open>for\<close> loop is the recursive function \<open>ean13_loop\<close> on the counter \<open>i\<close> and the
  running value of the variable \<open>sum\<close> (written \<open>sumv\<close>, the name \<open>sum\<close> being taken by
  the library); it ends because \<open>12 - i\<close> decreases.
\<close>

function ean13_loop :: "string \<Rightarrow> nat \<Rightarrow> jsint \<Rightarrow> jsint" where
  "ean13_loop barcode i sumv =
     (if i < 12 then
        (let digit = parseInt (charAt barcode i)
         in ean13_loop barcode (i + 1)
              (js_add sumv (if i mod 2 = 0 then digit else js_mul digit (Some 3))))
      else sumv)"
  by pat_completeness auto
termination
  by (relation "measure (\<lambda>(barcode, i, sumv). 12 - i)") auto

declare ean13_loop.simps [simp del]

definition validateEAN13 :: "string \<Rightarrow> bool" where
  "validateEAN13 barcode =
     (if length barcode \<noteq> 13 then False
      else
        (let sumv = ean13_loop barcode 0 (Some 0);
             checkDigit = js_rem (js_sub (Some 10) (js_rem sumv (Some 10))) (Some 10)
         in js_strict_eq checkDigit (parseInt (charAt barcode 12))))"

text \<open>
  \<open>validateUPC\<close> has the same shape with 12 characters, 11 loop rounds and the weights
  swapped: \<open>sum += i % 2 === 0 ? digit * 3 : digit\<close>.
\<close>

function upc_loop :: "string \<Rightarrow> nat \<Rightarrow> jsint \<Rightarrow> jsint" where
  "upc_loop barcode i sumv =
     (if i < 11 then
        (let digit = parseInt (charAt barcode i)
         in upc_loop barcode (i + 1)
              (js_add sumv (if i mod 2 = 0 then js_mul digit (Some 3) else digit)))
      else sumv)"
  by pat_completeness auto
termination
  by (relation "measure (\<lambda>(barcode, i, sumv). 11 - i)") auto

declare upc_loop.simps [simp del]

definition validateUPC :: "string \<Rightarrow> bool" where
  "validateUPC barcode =
     (if length barcode \<noteq> 12 then False
      else
        (let sumv = upc_loop barcode 0 (Some 0);
             checkDigit = js_rem (js_sub (Some 10) (js_rem sumv (Some 10))) (Some 10)
         in js_strict_eq checkDigit (parseInt (charAt barcode 11))))"

text \<open>
  \<^verbatim>\<open>
  function validateBarcode(barcode) {
    const cleaned = barcode.replace(/\D/g, "")
    if (cleaned.length < 8 || cleaned.length > 14) { return false }
    if (cleaned.length === 13) { return validateEAN13(cleaned) }
    else if (cleaned.length === 12) { return validateUPC(cleaned) }
    return /^\d+$/.test(cleaned)
  }
  \<close>
\<close>

definition validateBarcode :: "string \<Rightarrow> bool" where
  "validateBarcode barcode =
     (let cleaned = stripNonDigits barcode
      in if length cleaned < 8 \<or> length cleaned > 14 then False
         else if length cleaned = 13 then validateEAN13 cleaned
         else if length cleaned = 12 then validateUPC cleaned
         else testAllDigits cleaned)"


section \<open>The rules as the specification words them\<close>

subsection \<open>The rule list of the score\<close>

text \<open>
  A field counts when it is present and strictly above its threshold: \<open>points x t k\<close> is
  \<open>k\<close> then and 0 otherwise. The score is 100 minus the penalties plus the bonuses,
  clamped to the interval from 0 to 100.
\<close>

definition present_above :: "jsnum \<Rightarrow> real \<Rightarrow> bool" where
  "present_above x t \<longleftrightarrow> x \<noteq> None \<and> the x > t"

definition points :: "jsnum \<Rightarrow> real \<Rightarrow> int \<Rightarrow> int" where
  "points x t k = (if present_above x t then k else 0)"

definition clamp_0_100 :: "int \<Rightarrow> int" where
  "clamp_0_100 x = (if x < 0 then 0 else if x > 100 then 100 else x)"

definition rule_list_score :: "NutrientFacts \<Rightarrow> int" where
  "rule_list_score facts =
     clamp_0_100
       (100
        - points (fat_100g facts) 20 15
        - points (saturated_fat_100g facts) 5 10
        - points (sugars_100g facts) 15 20
        - points (salt_100g facts) 1.5 15
        - points (sodium_100g facts) 600 10
        + points (fiber_100g facts) 3 10
        + points (proteins_100g facts) 10 5)"

subsection \<open>The check-digit formulas\<close>

text \<open>
  The value of a digit character, and the weighted sums over the leading digits: weights
  1 and 3 from index 0 for EAN-13 (12 digits), weights 3 and 1 from index 0 for UPC-A
  (11 digits).
\<close>

definition digitValue :: "char \<Rightarrow> int" where
  "digitValue c = int (of_char c) - 48"

definition ean13_weighted_sum :: "string \<Rightarrow> int" where
  "ean13_weighted_sum ds = (\<Sum>i<12. (if even i then 1 else 3) * digitValue (ds ! i))"

definition upc_weighted_sum :: "string \<Rightarrow> int" where
  "upc_weighted_sum ds = (\<Sum>i<11. (if even i then 3 else 1) * digitValue (ds ! i))"


section \<open>Properties of the health score\<close>

lemma js_gt_present_above: "js_gt x t = present_above x t"
  by (cases x) (simp_all add: js_gt_def present_above_def)

lemma clamp_max_min: "clamp_0_100 x = max 0 (min 100 x)"
  by (simp add: clamp_0_100_def)

lemma clamp_mono: "x \<le> y \<Longrightarrow> clamp_0_100 x \<le> clamp_0_100 y"
  by (simp add: clamp_0_100_def)

lemma getHealthScore_bounds: "0 \<le> getHealthScore r \<and> getHealthScore r \<le> 100"
  by (simp add: getHealthScore_def Let_def split del: if_split)

lemma penalty_points: "(if js_gt x t then s - k else s) = s - points x t k"
  by (simp add: points_def js_gt_present_above)

lemma bonus_points: "(if js_gt x t then s + k else s) = s + points x t k"
  by (simp add: points_def js_gt_present_above)

lemma getHealthScore_eq: "getHealthScore facts = rule_list_score facts"
  by (simp add: getHealthScore_def rule_list_score_def clamp_max_min Let_def
      penalty_points bonus_points)

lemma points_absent: "points None t k = 0"
  by (simp add: points_def present_above_def)

lemma points_low: "v \<le> t \<Longrightarrow> points (Some v) t k = 0"
  by (simp add: points_def present_above_def)

lemma points_mono: "v1 \<le> v2 \<Longrightarrow> 0 \<le> k \<Longrightarrow> points (Some v1) t k \<le> points (Some v2) t k"
  by (simp add: points_def present_above_def)

lemmas score_eval = getHealthScore_def no_facts_def js_gt_def Let_def

text \<open>
  Claim C1. For every nutrient record the score computed by \<open>getHealthScore\<close> is the
  clamp to the interval from 0 to 100 of 100, minus 15 for fat above 20, minus 10 for
  saturated fat above 5, minus 20 for sugars above 15, minus 15 for salt above 1.5, minus
  10 for sodium above 600, plus 10 for fiber above 3, plus 5 for proteins above 10, a
  field counting only when it is present. The record with fat 25, sugars 20 and fiber 5
  scores exactly 75, and every score lies between 0 and 100.
\<close>

theorem getHealthScore_rule_list:
  "getHealthScore facts = rule_list_score facts
   \<and> getHealthScore (no_facts\<lparr>fat_100g := Some 25, sugars_100g := Some 20, fiber_100g := Some 5\<rparr>) = 75
   \<and> 0 \<le> getHealthScore facts \<and> getHealthScore facts \<le> 100"
proof -
  have "getHealthScore (no_facts\<lparr>fat_100g := Some 25, sugars_100g := Some 20, fiber_100g := Some 5\<rparr>) = 75"
    by (simp add: score_eval)
  then show ?thesis
    using getHealthScore_eq [of facts] getHealthScore_bounds [of facts] by simp
qed

text \<open>
  Claim C5. The record with every field absent scores exactly 100. The score is an
  integer between 0 and 100 for every record (there is no error result), and an absent
  field adds neither a penalty nor a bonus: with a field absent the score is the same as
  with that field present at a value that does not exceed its threshold.
\<close>

theorem getHealthScore_absent_fields:
  "getHealthScore no_facts = 100
   \<and> 0 \<le> getHealthScore r \<and> getHealthScore r \<le> 100
   \<and> (v \<le> 20 \<longrightarrow> getHealthScore (r\<lparr>fat_100g := None\<rparr>) = getHealthScore (r\<lparr>fat_100g := Some v\<rparr>))
   \<and> (v \<le> 5 \<longrightarrow> getHealthScore (r\<lparr>saturated_fat_100g := None\<rparr>) =
         getHealthScore (r\<lparr>saturated_fat_100g := Some v\<rparr>))
   \<and> (v \<le> 15 \<longrightarrow> getHealthScore (r\<lparr>sugars_100g := None\<rparr>) = getHealthScore (r\<lparr>sugars_100g := Some v\<rparr>))
   \<and> (v \<le> 1.5 \<longrightarrow> getHealthScore (r\<lparr>salt_100g := None\<rparr>) = getHealthScore (r\<lparr>salt_100g := Some v\<rparr>))
   \<and> (v \<le> 600 \<longrightarrow> getHealthScore (r\<lparr>sodium_100g := None\<rparr>) = getHealthScore (r\<lparr>sodium_100g := Some v\<rparr>))
   \<and> (v \<le> 3 \<longrightarrow> getHealthScore (r\<lparr>fiber_100g := None\<rparr>) = getHealthScore (r\<lparr>fiber_100g := Some v\<rparr>))
   \<and> (v \<le> 10 \<longrightarrow> getHealthScore (r\<lparr>proteins_100g := None\<rparr>) =
         getHealthScore (r\<lparr>proteins_100g := Some v\<rparr>))"
proof -
  have empty: "getHealthScore no_facts = 100"
    by (simp add: score_eval)
  have fields:
    "v \<le> 20 \<longrightarrow> getHealthScore (r\<lparr>fat_100g := None\<rparr>) = getHealthScore (r\<lparr>fat_100g := Some v\<rparr>)"
    "v \<le> 5 \<longrightarrow> getHealthScore (r\<lparr>saturated_fat_100g := None\<rparr>) =
         getHealthScore (r\<lparr>saturated_fat_100g := Some v\<rparr>)"
    "v \<le> 15 \<longrightarrow> getHealthScore (r\<lparr>sugars_100g := None\<rparr>) = getHealthScore (r\<lparr>sugars_100g := Some v\<rparr>)"
    "v \<le> 1.5 \<longrightarrow> getHealthScore (r\<lparr>salt_100g := None\<rparr>) = getHealthScore (r\<lparr>salt_100g := Some v\<rparr>)"
    "v \<le> 600 \<longrightarrow> getHealthScore (r\<lparr>sodium_100g := None\<rparr>) = getHealthScore (r\<lparr>sodium_100g := Some v\<rparr>)"
    "v \<le> 3 \<longrightarrow> getHealthScore (r\<lparr>fiber_100g := None\<rparr>) = getHealthScore (r\<lparr>fiber_100g := Some v\<rparr>)"
    "v \<le> 10 \<longrightarrow> getHealthScore (r\<lparr>proteins_100g := None\<rparr>) =
         getHealthScore (r\<lparr>proteins_100g := Some v\<rparr>)"
    by (simp_all add: getHealthScore_eq rule_list_score_def points_absent points_low)
  show ?thesis
    using empty getHealthScore_bounds [of r] fields by (intro conjI) simp_all
qed

theorem getHealthScore_absent_fields_witness:
  "getHealthScore no_facts = 100
   \<and> (1::real) \<le> 1.5
   \<and> getHealthScore (no_facts\<lparr>sugars_100g := Some 20\<rparr>) = 80
   \<and> getHealthScore (no_facts\<lparr>sugars_100g := Some 20, fat_100g := None\<rparr>) = 80
   \<and> getHealthScore (no_facts\<lparr>sugars_100g := Some 20, fat_100g := Some 1\<rparr>) = 80
   \<and> getHealthScore (no_facts\<lparr>sugars_100g := Some 20, fiber_100g := None\<rparr>) = 80
   \<and> getHealthScore (no_facts\<lparr>sugars_100g := Some 20, fiber_100g := Some 1\<rparr>) = 80"
  using getHealthScore_absent_fields [where v = 1 and r = "no_facts\<lparr>sugars_100g := Some 20\<rparr>"]
  by (simp add: score_eval)

text \<open>
  Claim C8. With all other fields fixed, the score does not increase when the value of a
  penalty field (fat, saturated fat, sugars, salt, sodium) grows, and does not decrease
  when the value of a bonus field (fiber, proteins) grows: for values \<open>v1 \<le> v2\<close> of one
  field, the score at \<open>v2\<close> is at most (for a bonus field: at least) the score at \<open>v1\<close>.
\<close>

theorem getHealthScore_monotone:
  assumes "v1 \<le> v2"
  shows "getHealthScore (r\<lparr>fat_100g := Some v2\<rparr>) \<le> getHealthScore (r\<lparr>fat_100g := Some v1\<rparr>)
   \<and> getHealthScore (r\<lparr>saturated_fat_100g := Some v2\<rparr>) \<le> getHealthScore (r\<lparr>saturated_fat_100g := Some v1\<rparr>)
   \<and> getHealthScore (r\<lparr>sugars_100g := Some v2\<rparr>) \<le> getHealthScore (r\<lparr>sugars_100g := Some v1\<rparr>)
   \<and> getHealthScore (r\<lparr>salt_100g := Some v2\<rparr>) \<le> getHealthScore (r\<lparr>salt_100g := Some v1\<rparr>)
   \<and> getHealthScore (r\<lparr>sodium_100g := Some v2\<rparr>) \<le> getHealthScore (r\<lparr>sodium_100g := Some v1\<rparr>)
   \<and> getHealthScore (r\<lparr>fiber_100g := Some v1\<rparr>) \<le> getHealthScore (r\<lparr>fiber_100g := Some v2\<rparr>)
   \<and> getHealthScore (r\<lparr>proteins_100g := Some v1\<rparr>) \<le> getHealthScore (r\<lparr>proteins_100g := Some v2\<rparr>)"
proof -
  have m: "points (Some v1) t k \<le> points (Some v2) t k" if "0 \<le> k" for t k
    using assms that by (rule points_mono)
  have "getHealthScore (r\<lparr>fat_100g := Some v2\<rparr>) \<le> getHealthScore (r\<lparr>fat_100g := Some v1\<rparr>)"
    unfolding getHealthScore_eq rule_list_score_def
    by (rule clamp_mono) (use m [where k = 15 and t = 20] in simp)
  moreover have "getHealthScore (r\<lparr>saturated_fat_100g := Some v2\<rparr>)
      \<le> getHealthScore (r\<lparr>saturated_fat_100g := Some v1\<rparr>)"
    unfolding getHealthScore_eq rule_list_score_def
    by (rule clamp_mono) (use m [where k = 10 and t = 5] in simp)
  moreover have "getHealthScore (r\<lparr>sugars_100g := Some v2\<rparr>) \<le> getHealthScore (r\<lparr>sugars_100g := Some v1\<rparr>)"
    unfolding getHealthScore_eq rule_list_score_def
    by (rule clamp_mono) (use m [where k = 20 and t = 15] in simp)
  moreover have "getHealthScore (r\<lparr>salt_100g := Some v2\<rparr>) \<le> getHealthScore (r\<lparr>salt_100g := Some v1\<rparr>)"
    unfolding getHealthScore_eq rule_list_score_def
    by (rule clamp_mono) (use m [where k = 15 and t = "3/2"] in simp)
  moreover have "getHealthScore (r\<lparr>sodium_100g := Some v2\<rparr>) \<le> getHealthScore (r\<lparr>sodium_100g := Some v1\<rparr>)"
    unfolding getHealthScore_eq rule_list_score_def
    by (rule clamp_mono) (use m [where k = 10 and t = 600] in simp)
  moreover have "getHealthScore (r\<lparr>fiber_100g := Some v1\<rparr>) \<le> getHealthScore (r\<lparr>fiber_100g := Some v2\<rparr>)"
    unfolding getHealthScore_eq rule_list_score_def
    by (rule clamp_mono) (use m [where k = 10 and t = 3] in simp)
  moreover have "getHealthScore (r\<lparr>proteins_100g := Some v1\<rparr>) \<le> getHealthScore (r\<lparr>proteins_100g := Some v2\<rparr>)"
    unfolding getHealthScore_eq rule_list_score_def
    by (rule clamp_mono) (use m [where k = 5 and t = 10] in simp)
  ultimately show ?thesis by (intro conjI)
qed

theorem getHealthScore_monotone_witness:
  "(12::real) \<le> 25
   \<and> getHealthScore (no_facts\<lparr>fat_100g := Some 12\<rparr>) = 100
   \<and> getHealthScore (no_facts\<lparr>fat_100g := Some 25\<rparr>) = 85
   \<and> getHealthScore (no_facts\<lparr>sugars_100g := Some 25\<rparr>) \<le> getHealthScore (no_facts\<lparr>sugars_100g := Some 12\<rparr>)
   \<and> getHealthScore (no_facts\<lparr>proteins_100g := Some 12\<rparr>) \<le> getHealthScore (no_facts\<lparr>proteins_100g := Some 25\<rparr>)"
proof -
  have h: "(12::real) \<le> 25" by simp
  show ?thesis
    using h getHealthScore_monotone [OF h, where r = no_facts]
    by (simp add: score_eval)
qed

text \<open>
  Claim C10. The score does not depend on the energy and carbohydrate fields: two
  records that agree on fat, saturated fat, sugars, salt, sodium, fiber and proteins have
  the same score, whatever their energy and carbohydrate fields hold.
\<close>

theorem getHealthScore_ignores_energy_carbohydrates:
  assumes "fat_100g r = fat_100g r'"
    and "saturated_fat_100g r = saturated_fat_100g r'"
    and "sugars_100g r = sugars_100g r'"
    and "salt_100g r = salt_100g r'"
    and "sodium_100g r = sodium_100g r'"
    and "fiber_100g r = fiber_100g r'"
    and "proteins_100g r = proteins_100g r'"
  shows "getHealthScore r = getHealthScore r'"
  unfolding getHealthScore_def by (simp only: assms)

theorem getHealthScore_ignores_energy_carbohydrates_witness:
  "getHealthScore (no_facts\<lparr>fat_100g := Some 25, energy_kcal_100g := Some 540,
       carbohydrates_100g := Some 57.5\<rparr>)
   = getHealthScore (no_facts\<lparr>fat_100g := Some 25\<rparr>)
   \<and> getHealthScore (no_facts\<lparr>fat_100g := Some 25\<rparr>) = 85"
proof -
  have "getHealthScore (no_facts\<lparr>fat_100g := Some 25, energy_kcal_100g := Some 540,
       carbohydrates_100g := Some 57.5\<rparr>)
   = getHealthScore (no_facts\<lparr>fat_100g := Some 25\<rparr>)"
    by (rule getHealthScore_ignores_energy_carbohydrates) simp_all
  moreover have "getHealthScore (no_facts\<lparr>fat_100g := Some 25\<rparr>) = 85"
    by (simp add: score_eval)
  ultimately show ?thesis by simp
qed


section \<open>Properties of the score bands and the grade colours\<close>

text \<open>
  Claim C6. The band of a score is fixed by thresholds with inclusive lower bounds, for
  every number: label Excellent with the class \<open>health-score-excellent\<close> (the
  specification's green band) from 80 up, Good with \<open>health-score-good\<close> (yellow band)
  from 60 to below 80, Fair with \<open>health-score-fair\<close> (orange band) from 40 to below 60,
  and Poor with \<open>health-score-poor\<close> (red band) otherwise, which includes a score that
  is not a number. Exactly 80 is Excellent and exactly 60 is Good.
\<close>

theorem score_band_thresholds:
  "(80 \<le> s \<longrightarrow> getHealthScoreText (Some s) = ''Excellent''
        \<and> getHealthScoreClass (Some s) = ''health-score-excellent'')
   \<and> (60 \<le> s \<and> s < 80 \<longrightarrow> getHealthScoreText (Some s) = ''Good''
        \<and> getHealthScoreClass (Some s) = ''health-score-good'')
   \<and> (40 \<le> s \<and> s < 60 \<longrightarrow> getHealthScoreText (Some s) = ''Fair''
        \<and> getHealthScoreClass (Some s) = ''health-score-fair'')
   \<and> (s < 40 \<longrightarrow> getHealthScoreText (Some s) = ''Poor''
        \<and> getHealthScoreClass (Some s) = ''health-score-poor'')
   \<and> getHealthScoreText None = ''Poor'' \<and> getHealthScoreClass None = ''health-score-poor''
   \<and> getHealthScoreText (Some 80) = ''Excellent'' \<and> getHealthScoreText (Some 60) = ''Good''"
  by (simp add: getHealthScoreText_def getHealthScoreClass_def js_ge_def)

theorem score_band_thresholds_witness:
  "(80::real) \<le> 100 \<and> getHealthScoreText (Some 100) = ''Excellent''
   \<and> (60::real) \<le> 75 \<and> (75::real) < 80 \<and> getHealthScoreText (Some 75) = ''Good''
   \<and> (40::real) \<le> 40 \<and> (40::real) < 60 \<and> getHealthScoreText (Some 40) = ''Fair''
   \<and> getHealthScoreClass (Some 40) = ''health-score-fair''
   \<and> (39.5::real) < 40 \<and> getHealthScoreText (Some 39.5) = ''Poor''
   \<and> (-3::real) < 40 \<and> getHealthScoreClass (Some (-3)) = ''health-score-poor''"
  using score_band_thresholds [of 100] score_band_thresholds [of 75]
    score_band_thresholds [of 40] score_band_thresholds [of "39.5"]
    score_band_thresholds [of "-3"]
  by simp

text \<open>
  Claim C7. The colour of a grade is given by a fixed table: A is green, B is lime, C is
  yellow, D is orange, E is red, and every other string, such as Z, gets the gray default.
  The function has a result for every string.
\<close>

theorem getGradeColor_table:
  "getGradeColor ''A'' = ''bg-green-500''
   \<and> getGradeColor ''B'' = ''bg-lime-500''
   \<and> getGradeColor ''C'' = ''bg-yellow-500''
   \<and> getGradeColor ''D'' = ''bg-orange-500''
   \<and> getGradeColor ''E'' = ''bg-red-500''
   \<and> (g \<noteq> ''A'' \<and> g \<noteq> ''B'' \<and> g \<noteq> ''C'' \<and> g \<noteq> ''D'' \<and> g \<noteq> ''E''
        \<longrightarrow> getGradeColor g = ''bg-gray-500'')"
  by (simp add: getGradeColor_def)

theorem getGradeColor_table_witness:
  "''Z'' \<noteq> ''A'' \<and> ''Z'' \<noteq> ''B'' \<and> ''Z'' \<noteq> ''C'' \<and> ''Z'' \<noteq> ''D'' \<and> ''Z'' \<noteq> ''E''
   \<and> getGradeColor ''Z'' = ''bg-gray-500''
   \<and> getGradeColor [] = ''bg-gray-500''
   \<and> getGradeColor ''a'' = ''bg-gray-500''"
  using getGradeColor_table [of "''Z''"] getGradeColor_table [of "[]"]
    getGradeColor_table [of "''a''"]
  by simp


section \<open>Properties of the barcode validation\<close>

lemmas js_ops = js_add_def js_sub_def js_mul_def js_rem_def js_strict_eq_def

lemma parseInt_digit:
  "i < length s \<Longrightarrow> list_all isDigit s \<Longrightarrow> parseInt (charAt s i) = Some (digitValue (s ! i))"
  by (simp add: parseInt_def charAt_def digitValue_def list_all_length)

lemma digitValue_range:
  "isDigit c \<Longrightarrow> 0 \<le> digitValue c \<and> digitValue c \<le> 9"
  by (auto simp add: isDigit_def digitValue_def)

lemma ean13_loop_sum:
  assumes "length s = 13" "list_all isDigit s"
  shows "ean13_loop s i sumv =
         js_add sumv (Some (\<Sum>j = i..<12. (if even j then 1 else 3) * digitValue (s ! j)))"
  using assms
proof (induction s i sumv rule: ean13_loop.induct)
  case (1 barcode i sumv)
  show ?case
  proof (cases "i < 12")
    case True
    then have "i < length barcode" using "1.prems" by simp
    then have p: "parseInt (charAt barcode i) = Some (digitValue (barcode ! i))"
      using "1.prems" by (simp add: parseInt_digit)
    have w: "(if i mod 2 = 0 then Some (digitValue (barcode ! i))
              else js_mul (Some (digitValue (barcode ! i))) (Some 3)) =
             Some ((if even i then 1 else 3) * digitValue (barcode ! i))"
      by (simp add: js_mul_def even_iff_mod_2_eq_zero)
    have step: "ean13_loop barcode i sumv =
        ean13_loop barcode (i + 1)
          (js_add sumv (Some ((if even i then 1 else 3) * digitValue (barcode ! i))))"
      using True by (subst ean13_loop.simps) (simp only: p w Let_def if_True)
    have ih: "ean13_loop barcode (i + 1)
          (js_add sumv (Some ((if even i then 1 else 3) * digitValue (barcode ! i)))) =
        js_add (js_add sumv (Some ((if even i then 1 else 3) * digitValue (barcode ! i))))
          (Some (\<Sum>j = i + 1..<12. (if even j then 1 else 3) * digitValue (barcode ! j)))"
      using "1.IH" [OF True p [symmetric]] "1.prems" by (simp only: w)
    show ?thesis
      unfolding step ih using True
      by (cases sumv) (simp_all add: js_add_def sum.atLeast_Suc_lessThan)
  next
    case False
    then show ?thesis by (cases sumv) (simp_all add: ean13_loop.simps js_add_def)
  qed
qed

lemma js_check_digit:
  "0 \<le> S \<Longrightarrow> js_rem (js_sub (Some 10) (js_rem (Some S) (Some 10))) (Some 10) = Some ((10 - S mod 10) mod 10)"
  by (simp add: js_rem_def js_sub_def sgn_if)


lemma upc_loop_sum:
  assumes "length s = 12" "list_all isDigit s"
  shows "upc_loop s i sumv =
         js_add sumv (Some (\<Sum>j = i..<11. (if even j then 3 else 1) * digitValue (s ! j)))"
  using assms
proof (induction s i sumv rule: upc_loop.induct)
  case (1 barcode i sumv)
  show ?case
  proof (cases "i < 11")
    case True
    then have "i < length barcode" using "1.prems" by simp
    then have p: "parseInt (charAt barcode i) = Some (digitValue (barcode ! i))"
      using "1.prems" by (simp add: parseInt_digit)
    have w: "(if i mod 2 = 0 then js_mul (Some (digitValue (barcode ! i))) (Some 3)
              else Some (digitValue (barcode ! i))) =
             Some ((if even i then 3 else 1) * digitValue (barcode ! i))"
      by (simp add: js_mul_def even_iff_mod_2_eq_zero)
    have step: "upc_loop barcode i sumv =
        upc_loop barcode (i + 1)
          (js_add sumv (Some ((if even i then 3 else 1) * digitValue (barcode ! i))))"
      using True by (subst upc_loop.simps) (simp only: p w Let_def if_True)
    have ih: "upc_loop barcode (i + 1)
          (js_add sumv (Some ((if even i then 3 else 1) * digitValue (barcode ! i)))) =
        js_add (js_add sumv (Some ((if even i then 3 else 1) * digitValue (barcode ! i))))
          (Some (\<Sum>j = i + 1..<11. (if even j then 3 else 1) * digitValue (barcode ! j)))"
      using "1.IH" [OF True p [symmetric]] "1.prems" by (simp only: w)
    show ?thesis
      unfolding step ih using True
      by (cases sumv) (simp_all add: js_add_def sum.atLeast_Suc_lessThan)
  next
    case False
    then show ?thesis by (cases sumv) (simp_all add: upc_loop.simps js_add_def)
  qed
qed

lemma stripNonDigits_all_digits: "list_all isDigit (stripNonDigits s)"
  by (simp add: stripNonDigits_def list_all_iff)

lemma stripNonDigits_idem: "stripNonDigits (stripNonDigits s) = stripNonDigits s"
  by (simp add: stripNonDigits_def)

lemma weighted_sum_nonneg:
  assumes "list_all isDigit s" "n \<le> length s" "\<And>j. 0 \<le> w j"
  shows "0 \<le> (\<Sum>j<n. w j * digitValue (s ! j))"
proof (rule sum_nonneg)
  fix j assume "j \<in> {..<n}"
  then have "isDigit (s ! j)" using assms(1,2) by (simp add: list_all_length)
  then show "0 \<le> w j * digitValue (s ! j)"
    using digitValue_range [of "s ! j"] assms(3) [of j] by simp
qed

lemma validateEAN13_formula:
  assumes len: "length c = 13" and dig: "list_all isDigit c"
  shows "validateEAN13 c =
         (digitValue (c ! 12) = (10 - ean13_weighted_sum c mod 10) mod 10)"
proof -
  have loop: "ean13_loop c 0 (Some 0) = Some (ean13_weighted_sum c)"
    by (simp add: ean13_loop_sum [OF len dig] js_add_def ean13_weighted_sum_def
        atLeast0LessThan)
  have nonneg: "0 \<le> ean13_weighted_sum c"
    unfolding ean13_weighted_sum_def
    by (rule weighted_sum_nonneg [OF dig]) (simp_all add: len)
  have last: "parseInt (charAt c 12) = Some (digitValue (c ! 12))"
    by (rule parseInt_digit [OF _ dig]) (simp add: len)
  show ?thesis
    by (simp add: validateEAN13_def len loop Let_def js_check_digit [OF nonneg] last
        js_strict_eq_def eq_commute)
qed

lemma validateUPC_formula:
  assumes len: "length c = 12" and dig: "list_all isDigit c"
  shows "validateUPC c =
         (digitValue (c ! 11) = (10 - upc_weighted_sum c mod 10) mod 10)"
proof -
  have loop: "upc_loop c 0 (Some 0) = Some (upc_weighted_sum c)"
    by (simp add: upc_loop_sum [OF len dig] js_add_def upc_weighted_sum_def
        atLeast0LessThan)
  have nonneg: "0 \<le> upc_weighted_sum c"
    unfolding upc_weighted_sum_def
    by (rule weighted_sum_nonneg [OF dig]) (simp_all add: len)
  have last: "parseInt (charAt c 11) = Some (digitValue (c ! 11))"
    by (rule parseInt_digit [OF _ dig]) (simp add: len)
  show ?thesis
    by (simp add: validateUPC_def len loop Let_def js_check_digit [OF nonneg] last
        js_strict_eq_def eq_commute)
qed

lemmas eval_defs = validateBarcode_def stripNonDigits_def isDigit_def validateEAN13_def
  validateUPC_def ean13_loop.simps upc_loop.simps js_ops parseInt_def charAt_def Let_def
  testAllDigits_def digitValue_def ean13_weighted_sum_def upc_weighted_sum_def
  lessThan_nat_numeral

text \<open>
  Claim C2. For every input whose digits-only normalization has length exactly 13,
  \<open>validateBarcode\<close> returns true if and only if the digit at index 12 equals
  \<open>(10 - (S mod 10)) mod 10\<close>, where \<open>S\<close> is the sum of the first 12 digits weighted 1 at
  even indices and 3 at odd indices (indices from 0). The input 4006381333931 is valid.
\<close>

theorem validateBarcode_ean13:
  "(length (stripNonDigits s) = 13 \<longrightarrow>
      validateBarcode s =
        (digitValue (stripNonDigits s ! 12) =
           (10 - ean13_weighted_sum (stripNonDigits s) mod 10) mod 10))
   \<and> validateBarcode ''4006381333931'' = True"
proof
  show "length (stripNonDigits s) = 13 \<longrightarrow>
      validateBarcode s =
        (digitValue (stripNonDigits s ! 12) =
           (10 - ean13_weighted_sum (stripNonDigits s) mod 10) mod 10)"
  proof
    assume len: "length (stripNonDigits s) = 13"
    have "validateBarcode s = validateEAN13 (stripNonDigits s)"
      by (simp add: validateBarcode_def Let_def len)
    then show "validateBarcode s =
        (digitValue (stripNonDigits s ! 12) =
           (10 - ean13_weighted_sum (stripNonDigits s) mod 10) mod 10)"
      by (simp only: validateEAN13_formula [OF len stripNonDigits_all_digits])
  qed
next
  show "validateBarcode ''4006381333931'' = True"
    by (simp add: eval_defs)
qed

theorem validateBarcode_ean13_witness:
  "length (stripNonDigits ''EAN 4-006381-333931'') = 13
   \<and> ean13_weighted_sum (stripNonDigits ''EAN 4-006381-333931'') = 89
   \<and> digitValue (stripNonDigits ''EAN 4-006381-333931'' ! 12) = 1
   \<and> validateBarcode ''EAN 4-006381-333931'' = True
   \<and> validateBarcode ''4006381333937'' = False"
  using validateBarcode_ean13 [of "''EAN 4-006381-333931''"]
    validateBarcode_ean13 [of "''4006381333937''"]
  by (simp add: stripNonDigits_def isDigit_def digitValue_def ean13_weighted_sum_def
      lessThan_nat_numeral)

text \<open>
  Claim C3. For every input whose digits-only normalization has length exactly 12,
  \<open>validateBarcode\<close> returns true if and only if the digit at index 11 equals
  \<open>(10 - (S mod 10)) mod 10\<close>, where \<open>S\<close> is the sum of the first 11 digits weighted 3 at
  even indices and 1 at odd indices (the UPC-A formula).
\<close>

theorem validateBarcode_upc:
  "length (stripNonDigits s) = 12 \<Longrightarrow>
      validateBarcode s =
        (digitValue (stripNonDigits s ! 11) =
           (10 - upc_weighted_sum (stripNonDigits s) mod 10) mod 10)"
proof -
  assume len: "length (stripNonDigits s) = 12"
  have "validateBarcode s = validateUPC (stripNonDigits s)"
    by (simp add: validateBarcode_def Let_def len)
  then show ?thesis
    by (simp only: validateUPC_formula [OF len stripNonDigits_all_digits])
qed

theorem validateBarcode_upc_witness:
  "length (stripNonDigits ''0 36000 29145 2'') = 12
   \<and> upc_weighted_sum (stripNonDigits ''0 36000 29145 2'') = 58
   \<and> digitValue (stripNonDigits ''0 36000 29145 2'' ! 11) = 2
   \<and> validateBarcode ''0 36000 29145 2'' = True
   \<and> validateBarcode ''036000291453'' = False"
  using validateBarcode_upc [of "''0 36000 29145 2''"]
    validateBarcode_upc [of "''036000291453''"]
  by (simp add: stripNonDigits_def isDigit_def digitValue_def upc_weighted_sum_def
      lessThan_nat_numeral)

text \<open>
  Claim C4. \<open>validateBarcode\<close> has a boolean result for every string (its loops end, and
  no branch of it fails). When the normalized length is below 8 or above 14 the result is
  false; that covers an input without any digit, whose normalization is empty. When the
  normalized length is between 8 and 14 and is neither 12 nor 13 the result is true.
\<close>

theorem validateBarcode_lengths:
  "(length (stripNonDigits s) < 8 \<or> 14 < length (stripNonDigits s) \<longrightarrow>
      validateBarcode s = False)
   \<and> (list_all (\<lambda>c. \<not> isDigit c) s \<longrightarrow> stripNonDigits s = [] \<and> validateBarcode s = False)
   \<and> (8 \<le> length (stripNonDigits s) \<and> length (stripNonDigits s) \<le> 14
        \<and> length (stripNonDigits s) \<noteq> 12 \<and> length (stripNonDigits s) \<noteq> 13 \<longrightarrow>
      validateBarcode s = True)"
proof (intro conjI impI)
  assume "length (stripNonDigits s) < 8 \<or> 14 < length (stripNonDigits s)"
  then show "validateBarcode s = False"
    by (auto simp add: validateBarcode_def Let_def)
next
  assume nd: "list_all (\<lambda>c. \<not> isDigit c) s"
  then show e: "stripNonDigits s = []"
    by (simp add: stripNonDigits_def list_all_iff filter_empty_conv)
  show "validateBarcode s = False"
    by (simp add: validateBarcode_def Let_def e)
next
  assume a: "8 \<le> length (stripNonDigits s) \<and> length (stripNonDigits s) \<le> 14
        \<and> length (stripNonDigits s) \<noteq> 12 \<and> length (stripNonDigits s) \<noteq> 13"
  then have "stripNonDigits s \<noteq> []" by auto
  then have "testAllDigits (stripNonDigits s)"
    by (simp add: testAllDigits_def stripNonDigits_all_digits)
  with a show "validateBarcode s = True"
    by (simp add: validateBarcode_def Let_def)
qed

theorem validateBarcode_lengths_witness:
  "length (stripNonDigits ''123'') < 8 \<and> validateBarcode ''123'' = False
   \<and> 14 < length (stripNonDigits ''123456789012345'') \<and> validateBarcode ''123456789012345'' = False
   \<and> list_all (\<lambda>c. \<not> isDigit c) ''no digits'' \<and> validateBarcode ''no digits'' = False
   \<and> length (stripNonDigits ''abc12345678'') = 8 \<and> validateBarcode ''abc12345678'' = True
   \<and> length (stripNonDigits ''12345678901234'') = 14 \<and> validateBarcode ''12345678901234'' = True"
  using validateBarcode_lengths [of "''123''"] validateBarcode_lengths [of "''123456789012345''"]
    validateBarcode_lengths [of "''no digits''"] validateBarcode_lengths [of "''abc12345678''"]
    validateBarcode_lengths [of "''12345678901234''"]
  by (simp add: stripNonDigits_def isDigit_def)

text \<open>
  Claim C9. Validation gives the same answer on a string and on its normalization:
  \<open>validateBarcode s = validateBarcode (stripNonDigits s)\<close> for every string \<open>s\<close>.
\<close>

theorem validateBarcode_normalize:
  "validateBarcode s = validateBarcode (stripNonDigits s)"
  by (simp add: validateBarcode_def stripNonDigits_idem)

end
